theory Spec2Isabelle
  imports Main
begin

section \<open>Python values, text and exceptions\<close>

text \<open>
  The module \<^verbatim>\<open>src/model/patient.py\<close> keeps all its state in CSV files and drives
  them through \<^verbatim>\<open>csv.DictReader\<close> and \<^verbatim>\<open>csv.DictWriter\<close>.  Text is modelled as the
  list of bytes of its UTF-8 encoding (the files are opened with
  \<^verbatim>\<open>encoding="utf-8"\<close>); its characters are the UTF-8 sequences, and \<^verbatim>\<open>str.strip\<close>,
  \<^verbatim>\<open>str.isdigit\<close> and \<^verbatim>\<open>int\<close> classify their code points as the interpreter does.
  Every exception the code can raise on the modelled path is a value of \<open>pyexc\<close>.
\<close>

datatype pyexc = KeyError | AttributeError | IndexError | ValueError | EOFError

text \<open>
  A value stored in a row dictionary: a string, \<^verbatim>\<open>None\<close> (the reader's
  \<^verbatim>\<open>restval\<close> for a short record) or the list of surplus fields kept under the
  reader's \<^verbatim>\<open>restkey\<close>, which is the key \<^verbatim>\<open>None\<close>.
\<close>

datatype pyval = Str string | NoneVal | Rest "string list"

type_synonym pykey = "string option"

text \<open>A dictionary keeps insertion order: an association list with distinct keys.\<close>

type_synonym pydict = "(pykey \<times> pyval) list"

text \<open>The two occupancy markers, U+2B1C and U+2B1B, as their UTF-8 bytes.\<close>

definition OPEN :: string where
  "OPEN = [CHR 0xE2, CHR 0xAC, CHR 0x9C]"

definition BOOKED :: string where
  "BOOKED = [CHR 0xE2, CHR 0xAC, CHR 0x9B]"

subsection \<open>Characters\<close>

text \<open>
  A character of the text is a lead byte with the continuation bytes that follow it;
  \<open>codepoint\<close> decodes it and is \<open>None\<close> on a sequence that is not UTF-8.
\<close>

definition is_cont :: "char \<Rightarrow> bool" where
  "is_cont b = (0x80 \<le> (of_char b :: nat) \<and> (of_char b :: nat) < 0xC0)"

function utf8_chars :: "string \<Rightarrow> string list" where
  "utf8_chars [] = []"
| "utf8_chars (b # bs) = (b # takeWhile is_cont bs) # utf8_chars (dropWhile is_cont bs)"
  by pat_completeness auto
termination
  by (relation "measure length") (auto simp: length_dropWhile_le less_Suc_eq_le)

definition cont_bits :: "char \<Rightarrow> nat" where
  "cont_bits c = of_char c mod 64"

fun codepoint :: "string \<Rightarrow> nat option" where
  "codepoint [b] = (if (of_char b :: nat) < 0x80 then Some (of_char b) else None)"
| "codepoint [b, c] =
     (let n = (of_char b mod 32) * 64 + cont_bits c
      in if 0xC0 \<le> (of_char b :: nat) \<and> (of_char b :: nat) < 0xE0 \<and> 0x80 \<le> n
         then Some n else None)"
| "codepoint [b, c, d] =
     (let n = ((of_char b mod 16) * 64 + cont_bits c) * 64 + cont_bits d
      in if 0xE0 \<le> (of_char b :: nat) \<and> (of_char b :: nat) < 0xF0 \<and> 0x800 \<le> n
         then Some n else None)"
| "codepoint [b, c, d, e] =
     (let n = (((of_char b mod 8) * 64 + cont_bits c) * 64 + cont_bits d) * 64 + cont_bits e
      in if 0xF0 \<le> (of_char b :: nat) \<and> (of_char b :: nat) < 0xF8 \<and> 0x10000 \<le> n
            \<and> n \<le> 0x10FFFF
         then Some n else None)"
| "codepoint _ = None"

text \<open>
  The code points \<^verbatim>\<open>str.strip()\<close> removes, which are those of \<^verbatim>\<open>str.isspace\<close>.
\<close>

definition space_codepoints :: "nat list" where
  "space_codepoints =
     [0x9, 0xA, 0xB, 0xC, 0xD, 0x1C, 0x1D, 0x1E, 0x1F, 0x20, 0x85, 0xA0, 0x1680, 0x2000,
      0x2001, 0x2002, 0x2003, 0x2004, 0x2005, 0x2006, 0x2007, 0x2008, 0x2009, 0x200A,
      0x2028, 0x2029, 0x202F, 0x205F, 0x3000]"

definition isspace :: "string \<Rightarrow> bool" where
  "isspace ch = (case codepoint ch of None \<Rightarrow> False | Some c \<Rightarrow> c \<in> set space_codepoints)"

definition str_strip :: "string \<Rightarrow> string" where
  "str_strip s = concat (rev (dropWhile isspace (rev (dropWhile isspace (utf8_chars s)))))"

text \<open>\<^verbatim>\<open>s.split(",")\<close>: always at least one token.\<close>

fun split_comma :: "string \<Rightarrow> string list" where
  "split_comma [] = [[]]"
| "split_comma (c # cs) =
     (if c = CHR '','' then [] # split_comma cs
      else (case split_comma cs of [] \<Rightarrow> [[c]] | t # ts \<Rightarrow> (c # t) # ts))"

text \<open>
  The digits of \<^verbatim>\<open>str.isdigit\<close>, as ranges of code points (Unicode 14.0, the tables
  of CPython 3.11): the decimal digits, each range starting at a digit zero, and the
  other digits (superscripts, circled digits and the like), which \<^verbatim>\<open>int\<close> refuses.
\<close>

definition decimal_ranges :: "(nat \<times> nat) list" where
  "decimal_ranges =
     [(0x30, 0x39), (0x660, 0x669), (0x6F0, 0x6F9), (0x7C0, 0x7C9), (0x966, 0x96F),
      (0x9E6, 0x9EF), (0xA66, 0xA6F), (0xAE6, 0xAEF), (0xB66, 0xB6F), (0xBE6, 0xBEF),
      (0xC66, 0xC6F), (0xCE6, 0xCEF), (0xD66, 0xD6F), (0xDE6, 0xDEF), (0xE50, 0xE59),
      (0xED0, 0xED9), (0xF20, 0xF29), (0x1040, 0x1049), (0x1090, 0x1099), (0x17E0, 0x17E9),
      (0x1810, 0x1819), (0x1946, 0x194F), (0x19D0, 0x19D9), (0x1A80, 0x1A89),
      (0x1A90, 0x1A99), (0x1B50, 0x1B59), (0x1BB0, 0x1BB9), (0x1C40, 0x1C49),
      (0x1C50, 0x1C59), (0xA620, 0xA629), (0xA8D0, 0xA8D9), (0xA900, 0xA909),
      (0xA9D0, 0xA9D9), (0xA9F0, 0xA9F9), (0xAA50, 0xAA59), (0xABF0, 0xABF9),
      (0xFF10, 0xFF19), (0x104A0, 0x104A9), (0x10D30, 0x10D39), (0x11066, 0x1106F),
      (0x110F0, 0x110F9), (0x11136, 0x1113F), (0x111D0, 0x111D9), (0x112F0, 0x112F9),
      (0x11450, 0x11459), (0x114D0, 0x114D9), (0x11650, 0x11659), (0x116C0, 0x116C9),
      (0x11730, 0x11739), (0x118E0, 0x118E9), (0x11950, 0x11959), (0x11C50, 0x11C59),
      (0x11D50, 0x11D59), (0x11DA0, 0x11DA9), (0x16A60, 0x16A69), (0x16AC0, 0x16AC9),
      (0x16B50, 0x16B59), (0x1D7CE, 0x1D7FF), (0x1E140, 0x1E149), (0x1E2F0, 0x1E2F9),
      (0x1E950, 0x1E959), (0x1FBF0, 0x1FBF9)]"

definition other_digit_ranges :: "(nat \<times> nat) list" where
  "other_digit_ranges =
     [(0xB2, 0xB3), (0xB9, 0xB9), (0x1369, 0x1371), (0x19DA, 0x19DA), (0x2070, 0x2070),
      (0x2074, 0x2079), (0x2080, 0x2089), (0x2460, 0x2468), (0x2474, 0x247C),
      (0x2488, 0x2490), (0x24EA, 0x24EA), (0x24F5, 0x24FD), (0x24FF, 0x24FF),
      (0x2776, 0x277E), (0x2780, 0x2788), (0x278A, 0x2792), (0x10A40, 0x10A43),
      (0x10E60, 0x10E68), (0x11052, 0x1105A), (0x1F100, 0x1F10A)]"

definition in_ranges :: "nat \<Rightarrow> (nat \<times> nat) list \<Rightarrow> bool" where
  "in_ranges c rs = list_ex (\<lambda>(lo, hi). lo \<le> c \<and> c \<le> hi) rs"

definition isdigit_char :: "string \<Rightarrow> bool" where
  "isdigit_char ch =
     (case codepoint ch of
        None \<Rightarrow> False
      | Some c \<Rightarrow> in_ranges c decimal_ranges \<or> in_ranges c other_digit_ranges)"

definition isdigit :: "string \<Rightarrow> bool" where
  "isdigit s = (s \<noteq> [] \<and> list_all isdigit_char (utf8_chars s))"

definition decimal_value :: "string \<Rightarrow> nat option" where
  "decimal_value ch =
     (case codepoint ch of
        None \<Rightarrow> None
      | Some c \<Rightarrow> (case find (\<lambda>(lo, hi). lo \<le> c \<and> c \<le> hi) decimal_ranges of
                    None \<Rightarrow> None
                  | Some (lo, hi) \<Rightarrow> Some ((c - lo) mod 10)))"

fun digits_value :: "string list \<Rightarrow> nat \<Rightarrow> pyexc + nat" where
  "digits_value [] n = Inr n"
| "digits_value (ch # chs) n =
     (case decimal_value ch of
        None \<Rightarrow> Inl ValueError
      | Some d \<Rightarrow> digits_value chs (10 * n + d))"

text \<open>
  \<^verbatim>\<open>int(s)\<close> on the strings that reach it in this module, which have passed
  \<^verbatim>\<open>isdigit\<close>: the value of the decimal digits, \<^verbatim>\<open>ValueError\<close> when a digit is not
  decimal or when there are more digits than the interpreter converts (4300, its
  default \<^verbatim>\<open>max_str_digits\<close>).  Python integers are unbounded and the indices are
  never negative.
\<close>

definition py_int :: "string \<Rightarrow> pyexc + nat" where
  "py_int s =
     (let chars = utf8_chars s
      in if chars = [] \<or> 4300 < length chars then Inl ValueError
         else digits_value chars 0)"

section \<open>CSV files\<close>

text \<open>
  A file is the list of its records, each the list of its fields, the header record
  first; quoting and line ends are left to the \<^verbatim>\<open>csv\<close> module.  The file system maps
  a path to the file's content, \<open>None\<close> where \<^verbatim>\<open>os.path.exists\<close> is false.
\<close>

type_synonym csv_record = "string list"
type_synonym csv_file = "csv_record list"
type_synonym filesystem = "string \<Rightarrow> csv_file option"

text \<open>\<^verbatim>\<open>d[k] = v\<close>: an existing key keeps its position, a new key goes last.\<close>

fun dict_set :: "pydict \<Rightarrow> pykey \<Rightarrow> pyval \<Rightarrow> pydict" where
  "dict_set [] k v = [(k, v)]"
| "dict_set ((k', v') # d) k v =
     (if k' = k then (k, v) # d else (k', v') # dict_set d k v)"

text \<open>\<^verbatim>\<open>d[k]\<close>, which raises \<^verbatim>\<open>KeyError\<close> on a missing key.\<close>

definition dict_get :: "pydict \<Rightarrow> pykey \<Rightarrow> pyexc + pyval" where
  "dict_get d k = (case map_of d k of None \<Rightarrow> Inl KeyError | Some v \<Rightarrow> Inr v)"

text \<open>
  One step of \<^verbatim>\<open>DictReader.__next__\<close>: \<^verbatim>\<open>dict(zip(fieldnames, row))\<close>, then the
  surplus fields under the key \<^verbatim>\<open>None\<close>, or \<^verbatim>\<open>None\<close> for each missing field.
\<close>

definition reader_row :: "string list \<Rightarrow> csv_record \<Rightarrow> pydict" where
  "reader_row fieldnames row =
     (let d = foldl (\<lambda>d (k, v). dict_set d (Some k) (Str v)) [] (zip fieldnames row)
      in if length fieldnames < length row
         then dict_set d None (Rest (drop (length fieldnames) row))
         else foldl (\<lambda>d k. dict_set d (Some k) NoneVal) d (drop (length row) fieldnames))"

text \<open>The first record gives the field names; empty records after it are skipped.\<close>

definition DictReader :: "csv_file \<Rightarrow> pydict list" where
  "DictReader content =
     (case content of [] \<Rightarrow> []
      | fieldnames # rows \<Rightarrow> map (reader_row fieldnames) (filter (\<lambda>r. r \<noteq> []) rows))"

text \<open>
  What \<^verbatim>\<open>csv.writer\<close> writes for a value: a string as it is, \<^verbatim>\<open>None\<close> as the empty
  field, anything else through \<^verbatim>\<open>str\<close>.  For a list of plain fields that is
  \<^verbatim>\<open>['a', 'b']\<close>; the escapes Python adds to a field with a quote or a backslash are
  left out.  A list is written only when the reader's \<^verbatim>\<open>restkey\<close> is among the
  writer's field names: the cancel branch fixes its four field names, and the booking
  takes them from a row whose cells after the third it has put through \<^verbatim>\<open>strip()\<close>,
  which a list does not have.
\<close>

fun py_list_str :: "string list \<Rightarrow> string" where
  "py_list_str [] = []"
| "py_list_str [s] = CHR 0x27 # s @ [CHR 0x27]"
| "py_list_str (s # t # ts) = CHR 0x27 # s @ [CHR 0x27] @ '', '' @ py_list_str (t # ts)"

fun field_text :: "pyval \<Rightarrow> string" where
  "field_text (Str s) = s"
| "field_text NoneVal = []"
| "field_text (Rest l) = ''['' @ py_list_str l @ '']''"

definition key_text :: "pykey \<Rightarrow> string" where
  "key_text k = (case k of None \<Rightarrow> [] | Some s \<Rightarrow> s)"

text \<open>
  \<^verbatim>\<open>DictWriter._dict_to_list\<close> with the default \<^verbatim>\<open>extrasaction="raise"\<close> and
  \<^verbatim>\<open>restval=""\<close>.
\<close>

definition dict_to_list :: "pykey list \<Rightarrow> pydict \<Rightarrow> pyexc + csv_record" where
  "dict_to_list fieldnames rowdict =
     (if list_all (\<lambda>k. k \<in> set fieldnames) (map fst rowdict)
      then Inr (map (\<lambda>k. case map_of rowdict k of None \<Rightarrow> [] | Some v \<Rightarrow> field_text v)
                    fieldnames)
      else Inl ValueError)"

text \<open>
  \<^verbatim>\<open>writer.writerows(rows)\<close> onto the records already in the open file: the records
  before a failing row stay written.
\<close>

fun writerows :: "pykey list \<Rightarrow> pydict list \<Rightarrow> csv_file \<Rightarrow> pyexc option \<times> csv_file" where
  "writerows fieldnames [] out = (None, out)"
| "writerows fieldnames (d # ds) out =
     (case dict_to_list fieldnames d of
        Inl e \<Rightarrow> (Some e, out)
      | Inr r \<Rightarrow> writerows fieldnames ds (out @ [r]))"

text \<open>A list comprehension whose condition may raise.\<close>

fun filter_exc :: "('a \<Rightarrow> pyexc + bool) \<Rightarrow> 'a list \<Rightarrow> pyexc + 'a list" where
  "filter_exc p [] = Inr []"
| "filter_exc p (x # xs) =
     (case p x of
        Inl e \<Rightarrow> Inl e
      | Inr b \<Rightarrow> (case filter_exc p xs of
                    Inl e \<Rightarrow> Inl e
                  | Inr ys \<Rightarrow> Inr (if b then x # ys else ys)))"

text \<open>\<^verbatim>\<open>row[k] == s\<close> for a string \<open>s\<close>.\<close>

definition field_eq :: "pydict \<Rightarrow> string \<Rightarrow> string \<Rightarrow> pyexc + bool" where
  "field_eq row k s = (case dict_get row (Some k) of Inl e \<Rightarrow> Inl e | Inr v \<Rightarrow> Inr (v = Str s))"

section \<open>The operations of \<^verbatim>\<open>patient.py\<close>\<close>

text \<open>
  Each operation takes the file system (and, where it prompts, the lines typed at
  the terminal that are still unread) and returns its result with the file system it
  leaves.  \<^verbatim>\<open>input()\<close> takes the next line and raises \<^verbatim>\<open>EOFError\<close> when none is
  left.  What is printed is kept as the final outcome only; \<^verbatim>\<open>tabulate\<close> only prints.
\<close>

subsection \<open>\<^verbatim>\<open>get_assigned_mhwp\<close>\<close>

text \<open>The \<^verbatim>\<open>for row in reader\<close> loop; falling out of it reaches \<^verbatim>\<open>return None\<close>.\<close>

fun find_assignment :: "string \<Rightarrow> pydict list \<Rightarrow> pyexc + pyval" where
  "find_assignment patient_username [] = Inr NoneVal"
| "find_assignment patient_username (row # rows) =
     (case field_eq row ''patient_username'' patient_username of
        Inl e \<Rightarrow> Inl e
      | Inr True \<Rightarrow> dict_get row (Some ''mhwp_username'')
      | Inr False \<Rightarrow> find_assignment patient_username rows)"

definition get_assigned_mhwp :: "string \<Rightarrow> string \<Rightarrow> filesystem \<Rightarrow> pyval \<times> filesystem" where
  "get_assigned_mhwp patient_username assignments_file fs =
     (case fs assignments_file of
        None \<Rightarrow> (NoneVal, fs)
      | Some content \<Rightarrow>
          (case find_assignment patient_username (DictReader content) of
             Inl e \<Rightarrow> (NoneVal, fs)
           | Inr v \<Rightarrow> (v, fs)))"

subsection \<open>\<^verbatim>\<open>load_mhwp_schedule\<close>\<close>

definition appointments_path :: string where
  "appointments_path = ''data/appointments.csv''"

definition schedule_path :: string where
  "schedule_path = ''data/mhwp_schedule.csv''"

text \<open>\<^verbatim>\<open>(row["Date"], row["time_slot"])\<close>.\<close>

definition date_slot :: "pydict \<Rightarrow> pyexc + pyval \<times> pyval" where
  "date_slot row =
     (case dict_get row (Some ''Date'') of
        Inl e \<Rightarrow> Inl e
      | Inr d \<Rightarrow> (case dict_get row (Some ''time_slot'') of
                    Inl e \<Rightarrow> Inl e
                  | Inr t \<Rightarrow> Inr (d, t)))"

text \<open>The set comprehension building \<^verbatim>\<open>booked_slots\<close>, kept as a list.\<close>

fun booked_slots :: "string \<Rightarrow> pydict list \<Rightarrow> pyexc + (pyval \<times> pyval) list" where
  "booked_slots mhwp_username [] = Inr []"
| "booked_slots mhwp_username (row # rows) =
     (case field_eq row ''mhwp_username'' mhwp_username of
        Inl e \<Rightarrow> Inl e
      | Inr False \<Rightarrow> booked_slots mhwp_username rows
      | Inr True \<Rightarrow>
          (case date_slot row of
             Inl e \<Rightarrow> Inl e
           | Inr p \<Rightarrow> (case booked_slots mhwp_username rows of
                         Inl e \<Rightarrow> Inl e
                       | Inr ps \<Rightarrow> Inr (p # ps))))"

definition load_mhwp_schedule ::
  "string \<Rightarrow> string \<Rightarrow> filesystem \<Rightarrow> (pyexc + pydict list) \<times> filesystem" where
  "load_mhwp_schedule mhwp_username schedule_file fs =
     (case fs schedule_file of
        None \<Rightarrow> (Inr [], fs)
      | Some schedule \<Rightarrow>
          (case (case fs appointments_path of
                   None \<Rightarrow> Inr []
                 | Some appointments \<Rightarrow> booked_slots mhwp_username (DictReader appointments)) of
             Inl e \<Rightarrow> (Inl e, fs)
           | Inr booked \<Rightarrow>
               (filter_exc (\<lambda>row. case date_slot row of
                                     Inl e \<Rightarrow> Inl e
                                   | Inr p \<Rightarrow> Inr (p \<notin> set booked))
                           (DictReader schedule), fs)))"

subsection \<open>\<^verbatim>\<open>extract_available_slots\<close>\<close>

text \<open>\<^verbatim>\<open>v.strip()\<close>: only a string has the method.\<close>

definition val_strip :: "pyval \<Rightarrow> pyexc + string" where
  "val_strip v = (case v of Str s \<Rightarrow> Inr (str_strip s) | _ \<Rightarrow> Inl AttributeError)"

text \<open>The loop over \<^verbatim>\<open>enumerate(slot_columns)\<close>, reading the cells of the first row.\<close>

fun scan_slots :: "pydict \<Rightarrow> (nat \<times> pykey) list \<Rightarrow> pyexc + (nat \<times> pykey) list" where
  "scan_slots row [] = Inr []"
| "scan_slots row ((idx, slot_key) # cols) =
     (case dict_get row slot_key of
        Inl e \<Rightarrow> Inl e
      | Inr v \<Rightarrow>
          (case val_strip v of
             Inl e \<Rightarrow> Inl e
           | Inr s \<Rightarrow>
               (case scan_slots row cols of
                  Inl e \<Rightarrow> Inl e
                | Inr found \<Rightarrow> Inr (if s = OPEN then (idx, slot_key) # found else found))))"

text \<open>
  Line 63, \<^verbatim>\<open>list(date_schedule[0].keys())[3:]\<close>: the keys from the fourth on, under
  the comment that speaks of the keys from the third column onward.
\<close>

definition slot_columns :: "pydict \<Rightarrow> pykey list" where
  "slot_columns row = drop 3 (map fst row)"

definition extract_available_slots :: "pydict list \<Rightarrow> pyexc + (nat \<times> pykey) list" where
  "extract_available_slots date_schedule =
     (case date_schedule of
        [] \<Rightarrow> Inr []
      | row # _ \<Rightarrow> scan_slots row (enumerate 0 (slot_columns row)))"

subsection \<open>\<^verbatim>\<open>patient_select_slots\<close>\<close>

datatype outcome =
    ScheduleFileNotFound
  | NoScheduleForMHW
  | NoScheduleForDate
  | NoAvailableSlots
  | BookedSuccessfully
  | Error pyexc

text \<open>
  The indices typed on one line:
  \<^verbatim>\<open>[int(idx.strip()) for idx in line.strip().split(",") if idx.strip().isdigit()]\<close>.
\<close>

fun parse_tokens :: "string list \<Rightarrow> pyexc + nat list" where
  "parse_tokens [] = Inr []"
| "parse_tokens (t # ts) =
     (if isdigit (str_strip t)
      then (case py_int (str_strip t) of
              Inl e \<Rightarrow> Inl e
            | Inr n \<Rightarrow> (case parse_tokens ts of Inl e \<Rightarrow> Inl e | Inr ns \<Rightarrow> Inr (n # ns)))
      else parse_tokens ts)"

definition parse_indices :: "string \<Rightarrow> pyexc + nat list" where
  "parse_indices line = parse_tokens (split_comma (str_strip line))"

definition selection_ok :: "(nat \<times> pykey) list \<Rightarrow> nat list \<Rightarrow> bool" where
  "selection_ok available_slots selected_indices =
     (list_all (\<lambda>idx. idx \<in> set (map fst available_slots)) selected_indices
      \<and> length selected_indices \<le> 2)"

text \<open>
  The \<^verbatim>\<open>while True\<close> loop of the later definition (lines 231 to 240): it leaves with
  the accepted indices and the lines still unread, or with the \<^verbatim>\<open>EOFError\<close> of
  \<^verbatim>\<open>input()\<close>; a \<^verbatim>\<open>ValueError\<close> of \<^verbatim>\<open>int\<close> is caught inside the loop, which
  prompts again, and so does a rejected selection.
\<close>

fun selection_loop ::
  "(nat \<times> pykey) list \<Rightarrow> string list \<Rightarrow> pyexc + nat list \<times> string list" where
  "selection_loop available_slots [] = Inl EOFError"
| "selection_loop available_slots (line # lines) =
     (case parse_indices line of
        Inl e \<Rightarrow> if e = ValueError then selection_loop available_slots lines else Inl e
      | Inr selected_indices \<Rightarrow>
          if selection_ok available_slots selected_indices
          then Inr (selected_indices, lines)
          else selection_loop available_slots lines)"

text \<open>
  The loop of lines 243 to 245: \<^verbatim>\<open>available_slots[idx][1]\<close> indexes the list of
  open slots by position and raises \<^verbatim>\<open>IndexError\<close> past its end.
\<close>

fun mark_booked :: "(nat \<times> pykey) list \<Rightarrow> nat list \<Rightarrow> pydict \<Rightarrow> pyexc + pydict" where
  "mark_booked available_slots [] row = Inr row"
| "mark_booked available_slots (idx # idxs) row =
     (if idx < length available_slots
      then mark_booked available_slots idxs
             (dict_set row (snd (available_slots ! idx)) (Str BOOKED))
      else Inl IndexError)"

text \<open>
  The loop of lines 257 to 264, one \<^verbatim>\<open>writerow\<close> for each index onto the records of
  the file opened for appending.
\<close>

fun log_appointments ::
  "string \<Rightarrow> string \<Rightarrow> string \<Rightarrow> (nat \<times> pykey) list \<Rightarrow> nat list \<Rightarrow> csv_file
     \<Rightarrow> pyexc option \<times> csv_file" where
  "log_appointments patient_username mhwp_username selected_date available_slots [] out =
     (None, out)"
| "log_appointments patient_username mhwp_username selected_date available_slots (idx # idxs) out =
     (if idx < length available_slots
      then log_appointments patient_username mhwp_username selected_date available_slots idxs
             (out @ [[patient_username, mhwp_username, selected_date,
                      key_text (snd (available_slots ! idx))]])
      else (Some IndexError, out))"

text \<open>
  \<^verbatim>\<open>date_schedule[0]\<close> is the same object as the first row of \<^verbatim>\<open>all_schedules\<close> that
  passed the date filter, so the assignment to its cells shows in \<^verbatim>\<open>all_schedules\<close>
  at that place.
\<close>

fun update_first :: "('a \<Rightarrow> bool) \<Rightarrow> 'a \<Rightarrow> 'a list \<Rightarrow> 'a list" where
  "update_first p y [] = []"
| "update_first p y (x # xs) = (if p x then y # xs else x # update_first p y xs)"

text \<open>
  The later definition (lines 185 to 269), the one the module exports.  The whole body
  after the test for the file is inside \<^verbatim>\<open>try ... except Exception\<close>.
\<close>

definition patient_select_slots ::
  "string \<Rightarrow> string \<Rightarrow> string \<Rightarrow> string \<Rightarrow> string list \<Rightarrow> filesystem
     \<Rightarrow> outcome \<times> string list \<times> filesystem" where
  "patient_select_slots patient_username mhwp_username schedule_file appointments_file inp fs =
     (case fs schedule_file of
        None \<Rightarrow> (ScheduleFileNotFound, inp, fs)
      | Some content \<Rightarrow>
     (case filter_exc (\<lambda>row. field_eq row ''mhwp_username'' mhwp_username) (DictReader content) of
        Inl e \<Rightarrow> (Error e, inp, fs)
      | Inr all_schedules \<Rightarrow>
     if all_schedules = [] then (NoScheduleForMHW, inp, fs) else
     (case inp of
        [] \<Rightarrow> (Error EOFError, [], fs)
      | line # inp1 \<Rightarrow>
     let selected_date = str_strip line in
     (case filter_exc (\<lambda>row. field_eq row ''Date'' selected_date) all_schedules of
        Inl e \<Rightarrow> (Error e, inp1, fs)
      | Inr date_schedule \<Rightarrow>
     if date_schedule = [] then (NoScheduleForDate, inp1, fs) else
     (case extract_available_slots date_schedule of
        Inl e \<Rightarrow> (Error e, inp1, fs)
      | Inr available_slots \<Rightarrow>
     if available_slots = [] then (NoAvailableSlots, inp1, fs) else
     (case selection_loop available_slots inp1 of
        Inl e \<Rightarrow> (Error e, [], fs)
      | Inr (selected_indices, inp2) \<Rightarrow>
     (case mark_booked available_slots selected_indices (hd date_schedule) of
        Inl e \<Rightarrow> (Error e, inp2, fs)
      | Inr row \<Rightarrow>
     let saved = update_first (\<lambda>r. field_eq r ''Date'' selected_date = Inr True) row all_schedules;
         fieldnames = map fst row;
         (failed, written) = writerows fieldnames saved [map key_text fieldnames];
         fs1 = fs(schedule_file \<mapsto> written)
     in (case failed of
           Some e \<Rightarrow> (Error e, inp2, fs1)
         | None \<Rightarrow>
     let (failed2, appended) =
           log_appointments patient_username mhwp_username selected_date available_slots
             selected_indices (case fs1 appointments_file of None \<Rightarrow> [] | Some old \<Rightarrow> old);
         fs2 = fs1(appointments_file \<mapsto> appended)
     in (case failed2 of
           Some e \<Rightarrow> (Error e, inp2, fs2)
         | None \<Rightarrow> (BookedSuccessfully, inp2, fs2))))))))))"

text \<open>
  The earlier definition (lines 78 to 162), which the later one replaces when the
  module is loaded; its loops are embedded on their own.
\<close>

fun selection_loop_first ::
  "(nat \<times> pykey) list \<Rightarrow> string list \<Rightarrow> pyexc + nat list \<times> string list" where
  "selection_loop_first available_slots [] = Inl EOFError"
| "selection_loop_first available_slots (line # lines) =
     (case parse_indices line of
        Inl e \<Rightarrow> if e = ValueError then selection_loop_first available_slots lines else Inl e
      | Inr selected_indices \<Rightarrow>
          if selection_ok available_slots selected_indices
          then Inr (selected_indices, lines)
          else selection_loop_first available_slots lines)"

fun mark_booked_first :: "(nat \<times> pykey) list \<Rightarrow> nat list \<Rightarrow> pydict \<Rightarrow> pyexc + pydict" where
  "mark_booked_first available_slots [] row = Inr row"
| "mark_booked_first available_slots (idx # idxs) row =
     (if idx < length available_slots
      then mark_booked_first available_slots idxs
             (dict_set row (snd (available_slots ! idx)) (Str BOOKED))
      else Inl IndexError)"

fun log_appointments_first ::
  "string \<Rightarrow> string \<Rightarrow> string \<Rightarrow> (nat \<times> pykey) list \<Rightarrow> nat list \<Rightarrow> csv_file
     \<Rightarrow> pyexc option \<times> csv_file" where
  "log_appointments_first patient_username mhwp_username selected_date available_slots [] out =
     (None, out)"
| "log_appointments_first patient_username mhwp_username selected_date available_slots
     (idx # idxs) out =
     (if idx < length available_slots
      then log_appointments_first patient_username mhwp_username selected_date available_slots
             idxs (out @ [[patient_username, mhwp_username, selected_date,
                           key_text (snd (available_slots ! idx))]])
      else (Some IndexError, out))"

definition patient_select_slots_first ::
  "string \<Rightarrow> string \<Rightarrow> string \<Rightarrow> string \<Rightarrow> string list \<Rightarrow> filesystem
     \<Rightarrow> outcome \<times> string list \<times> filesystem" where
  "patient_select_slots_first patient_username mhwp_username schedule_file appointments_file
     inp fs =
     (case fs schedule_file of
        None \<Rightarrow> (ScheduleFileNotFound, inp, fs)
      | Some content \<Rightarrow>
     (case filter_exc (\<lambda>row. field_eq row ''mhwp_username'' mhwp_username) (DictReader content) of
        Inl e \<Rightarrow> (Error e, inp, fs)
      | Inr all_schedules \<Rightarrow>
     if all_schedules = [] then (NoScheduleForMHW, inp, fs) else
     (case inp of
        [] \<Rightarrow> (Error EOFError, [], fs)
      | line # inp1 \<Rightarrow>
     let selected_date = str_strip line in
     (case filter_exc (\<lambda>row. field_eq row ''Date'' selected_date) all_schedules of
        Inl e \<Rightarrow> (Error e, inp1, fs)
      | Inr date_schedule \<Rightarrow>
     if date_schedule = [] then (NoScheduleForDate, inp1, fs) else
     (case extract_available_slots date_schedule of
        Inl e \<Rightarrow> (Error e, inp1, fs)
      | Inr available_slots \<Rightarrow>
     if available_slots = [] then (NoAvailableSlots, inp1, fs) else
     (case selection_loop_first available_slots inp1 of
        Inl e \<Rightarrow> (Error e, [], fs)
      | Inr (selected_indices, inp2) \<Rightarrow>
     (case mark_booked_first available_slots selected_indices (hd date_schedule) of
        Inl e \<Rightarrow> (Error e, inp2, fs)
      | Inr row \<Rightarrow>
     let saved = update_first (\<lambda>r. field_eq r ''Date'' selected_date = Inr True) row all_schedules;
         fieldnames = map fst row;
         (failed, written) = writerows fieldnames saved [map key_text fieldnames];
         fs1 = fs(schedule_file \<mapsto> written)
     in (case failed of
           Some e \<Rightarrow> (Error e, inp2, fs1)
         | None \<Rightarrow>
     let (failed2, appended) =
           log_appointments_first patient_username mhwp_username selected_date available_slots
             selected_indices (case fs1 appointments_file of None \<Rightarrow> [] | Some old \<Rightarrow> old);
         fs2 = fs1(appointments_file \<mapsto> appended)
     in (case failed2 of
           Some e \<Rightarrow> (Error e, inp2, fs2)
         | None \<Rightarrow> (BookedSuccessfully, inp2, fs2))))))))))"

subsection \<open>Cancelling, in \<^verbatim>\<open>handle_patient_menu\<close>\<close>

datatype cancel_outcome =
    Cancelled
  | NoMatchingAppointment
  | NoAppointmentsFound
  | Raised pyexc

text \<open>
  The condition of the comprehension at line 338; \<^verbatim>\<open>and\<close> reads a later key only
  when the earlier comparisons hold.
\<close>

definition appt_matches :: "string \<Rightarrow> string \<Rightarrow> string \<Rightarrow> pydict \<Rightarrow> pyexc + bool" where
  "appt_matches username date time_slot appt =
     (case field_eq appt ''patient_username'' username of
        Inl e \<Rightarrow> Inl e
      | Inr False \<Rightarrow> Inr False
      | Inr True \<Rightarrow>
          (case field_eq appt ''Date'' date of
             Inl e \<Rightarrow> Inl e
           | Inr False \<Rightarrow> Inr False
           | Inr True \<Rightarrow> field_eq appt ''time_slot'' time_slot))"

definition appointment_fieldnames :: "pykey list" where
  "appointment_fieldnames =
     [Some ''patient_username'', Some ''mhwp_username'', Some ''Date'', Some ''time_slot'']"

text \<open>
  The branch for choice 6, then 2, of \<^verbatim>\<open>handle_patient_menu\<close> (lines 327 to 350),
  for the user named \<open>username\<close>.  Nothing catches an exception there, so it leaves
  the menu: the outcome \<open>Raised\<close>.
\<close>

definition handle_patient_menu_cancel ::
  "string \<Rightarrow> string list \<Rightarrow> filesystem \<Rightarrow> cancel_outcome \<times> string list \<times> filesystem" where
  "handle_patient_menu_cancel username inp fs =
     (case inp of
        [] \<Rightarrow> (Raised EOFError, [], fs)
      | line1 # inp1 \<Rightarrow>
     (case inp1 of
        [] \<Rightarrow> (Raised EOFError, [], fs)
      | line2 # inp2 \<Rightarrow>
     let date = str_strip line1; time_slot = str_strip line2 in
     (case fs appointments_path of
        None \<Rightarrow> (NoAppointmentsFound, inp2, fs)
      | Some content \<Rightarrow>
     let appointments = DictReader content in
     (case filter_exc (\<lambda>appt. case appt_matches username date time_slot appt of
                                 Inl e \<Rightarrow> Inl e
                               | Inr b \<Rightarrow> Inr (\<not> b)) appointments of
        Inl e \<Rightarrow> (Raised e, inp2, fs)
      | Inr updated_appointments \<Rightarrow>
     if length updated_appointments < length appointments
     then let (failed, written) =
                writerows appointment_fieldnames updated_appointments
                  [map key_text appointment_fieldnames];
              fs1 = fs(appointments_path \<mapsto> written)
          in (case failed of
                Some e \<Rightarrow> (Raised e, inp2, fs1)
              | None \<Rightarrow> (Cancelled, inp2, fs1))
     else (NoMatchingAppointment, inp2, fs)))))"

section \<open>Ledger records and the states of the examples\<close>

text \<open>
  The header of the appointments ledger, as the cancel branch writes it, and the test
  whether a ledger record of four fields is the one of a patient, a date and a slot.
\<close>

definition ledger_header :: csv_record where
  "ledger_header = [''patient_username'', ''mhwp_username'', ''Date'', ''time_slot'']"

definition record_matches :: "string \<Rightarrow> string \<Rightarrow> string \<Rightarrow> csv_record \<Rightarrow> bool" where
  "record_matches username date time_slot r =
     (r ! 0 = username \<and> r ! 2 = date \<and> r ! 3 = time_slot)"

text \<open>
  A schedule file in the layout of the specification, \<^verbatim>\<open>mhwp_username\<close>, \<^verbatim>\<open>Date\<close> and
  then one column for each slot, with the row of its scenario: the first two slots
  open, the third booked.
\<close>

definition spec_header :: csv_record where
  "spec_header = [''mhwp_username'', ''Date'', ''09:00'', ''10:00'', ''11:00'']"

definition spec_row :: pydict where
  "spec_row = reader_row spec_header [''drsmith'', ''2024/03/01'', OPEN, OPEN, BOOKED]"

definition spec_fs :: filesystem where
  "spec_fs = (\<lambda>_. None)
     (schedule_path \<mapsto> [spec_header, [''drsmith'', ''2024/03/01'', OPEN, OPEN, BOOKED]],
      appointments_path \<mapsto> [ledger_header])"

text \<open>A schedule file with a further leading column, Day, before the slot columns.\<close>

definition example_header :: csv_record where
  "example_header = [''mhwp_username'', ''Date'', ''Day'', ''09:00'', ''10:00'', ''11:00'']"

text \<open>The first slot is booked already, so the open slots are the columns 1 and 2.\<close>

definition gap_fs :: filesystem where
  "gap_fs = (\<lambda>_. None)
     (schedule_path \<mapsto> [example_header,
                           [''drsmith'', ''2024/03/01'', ''Fri'', BOOKED, OPEN, OPEN]],
      appointments_path \<mapsto> [ledger_header])"

text \<open>One schedule file shared by two practitioners.\<close>

definition shared_fs :: filesystem where
  "shared_fs = (\<lambda>_. None)
     (schedule_path \<mapsto> [example_header,
                           [''drsmith'', ''2024/03/01'', ''Fri'', OPEN, OPEN, BOOKED],
                           [''drjones'', ''2024/03/01'', ''Fri'', OPEN, OPEN, OPEN]],
      appointments_path \<mapsto> [ledger_header])"

text \<open>A ledger holding the same appointment twice, and one with a third party between.\<close>

definition double_fs :: filesystem where
  "double_fs = (\<lambda>_. None)
     (appointments_path \<mapsto> [ledger_header,
        [''alice'', ''drsmith'', ''2024/03/01'', ''09:00''],
        [''alice'', ''drsmith'', ''2024/03/01'', ''09:00'']])"

definition crowded_fs :: filesystem where
  "crowded_fs = (\<lambda>_. None)
     (appointments_path \<mapsto> [ledger_header,
        [''alice'', ''drsmith'', ''2024/03/01'', ''09:00''],
        [''bob'', ''drsmith'', ''2024/03/01'', ''09:00''],
        [''alice'', ''drsmith'', ''2024/03/01'', ''09:00'']])"

text \<open>
  A schedule in the layout \<^verbatim>\<open>load_mhwp_schedule\<close> reads, one record for each date and
  slot, with a ledger that holds the first of them.
\<close>

definition example_long_schedule :: csv_file where
  "example_long_schedule =
     [[''mhwp_username'', ''Date'', ''time_slot''],
      [''drsmith'', ''2024/03/01'', ''09:00''],
      [''drsmith'', ''2024/03/01'', ''10:00'']]"

definition example_ledger :: csv_file where
  "example_ledger =
     [ledger_header, [''alice'', ''drsmith'', ''2024/03/01'', ''09:00'']]"

definition example_fs :: filesystem where
  "example_fs = (\<lambda>_. None)(schedule_path \<mapsto> example_long_schedule,
                              appointments_path \<mapsto> example_ledger)"

definition assignments_fs :: filesystem where
  "assignments_fs = (\<lambda>_. None)
     (''data/assignments.csv'' \<mapsto>
        [[''patient_username'', ''mhwp_username''], [''bob'', ''drjones''],
         [''alice'', ''drsmith''], [''alice'', ''drjones'']])"

section \<open>The two definitions of \<^verbatim>\<open>patient_select_slots\<close>\<close>

lemma selection_loop_first_eq:
  "selection_loop_first available_slots inp = selection_loop available_slots inp"
  by (induction inp) (simp_all split: sum.splits)

lemma mark_booked_first_eq:
  "mark_booked_first available_slots idxs row = mark_booked available_slots idxs row"
  by (induction idxs arbitrary: row) simp_all

lemma log_appointments_first_eq:
  "log_appointments_first p m d available_slots idxs out
     = log_appointments p m d available_slots idxs out"
  by (induction idxs arbitrary: out) simp_all

text \<open>
  Claim C9.  The earlier definition of \<^verbatim>\<open>patient_select_slots\<close> (lines 78 to 162) and
  the later one (lines 185 to 269) that overrides it behave alike: on every file
  system and every sequence of typed lines they give the same outcome, leave the same
  lines unread and leave the same files.
\<close>

theorem patient_select_slots_definitions_agree:
  "patient_select_slots_first patient_username mhwp_username schedule_file appointments_file
     inp fs
   = patient_select_slots patient_username mhwp_username schedule_file appointments_file
       inp fs"
  unfolding patient_select_slots_first_def patient_select_slots_def
  by (simp only: selection_loop_first_eq mark_booked_first_eq log_appointments_first_eq)

section \<open>Cancellation touches the ledger only\<close>

text \<open>
  Claim C6.  Whatever the user, the typed lines and the files, cancelling changes no
  file but the appointments ledger: the file system it leaves is the one it found
  with at most the ledger replaced, and in particular the schedule file, with every
  cell of it, is as before (a cell marked booked stays booked).
\<close>

theorem cancel_mutates_only_ledger:
  "(case handle_patient_menu_cancel username inp fs of
      (out, inp', fs') \<Rightarrow>
        fs' = fs(appointments_path := fs' appointments_path)
        \<and> fs' schedule_path = fs schedule_path)"
  unfolding handle_patient_menu_cancel_def
  by (auto simp: Let_def appointments_path_def schedule_path_def
      split: list.splits option.splits sum.splits prod.splits)

section \<open>Reading rows\<close>

lemma map_of_dict_set: "map_of (dict_set d k v) = (map_of d)(k \<mapsto> v)"
  by (induction d) auto

lemma foldl_zip_none:
  "map_of (foldl (\<lambda>d (k, v). dict_set d (Some k) (Str v)) d0 kvs) (Some k) = None
     \<longleftrightarrow> map_of d0 (Some k) = None \<and> k \<notin> set (map fst kvs)"
  by (induction kvs arbitrary: d0) (auto simp: map_of_dict_set split: if_splits)

lemma foldl_restval_none:
  "map_of (foldl (\<lambda>d k. dict_set d (Some k) NoneVal) d0 ks) (Some k) = None
     \<longleftrightarrow> map_of d0 (Some k) = None \<and> k \<notin> set ks"
  by (induction ks arbitrary: d0) (auto simp: map_of_dict_set split: if_splits)

text \<open>Every row of a reader has exactly the field names as its string keys.\<close>

lemma reader_row_has_key:
  "map_of (reader_row fieldnames row) (Some k) = None \<longleftrightarrow> k \<notin> set fieldnames"
proof (cases "length fieldnames < length row")
  case True
  then show ?thesis
    by (simp add: reader_row_def Let_def map_of_dict_set foldl_zip_none map_fst_zip_take)
next
  case False
  have "set (take (length row) fieldnames) \<union> set (drop (length row) fieldnames) = set fieldnames"
    by (metis append_take_drop_id set_append)
  with False show ?thesis
    by (auto simp: reader_row_def Let_def foldl_restval_none foldl_zip_none map_fst_zip_take
        min_def)
qed

lemma reader_row_key_present:
  "k \<in> set fieldnames \<Longrightarrow> \<exists>v. map_of (reader_row fieldnames row) (Some k) = Some v"
  using reader_row_has_key [of fieldnames row k] by auto

lemma filter_exc_holds:
  "filter_exc p xs = Inr ys \<Longrightarrow> x \<in> set ys \<Longrightarrow> p x = Inr True"
  by (induction xs arbitrary: ys) (auto split: sum.splits if_splits)

lemma writerows_all:
  "\<forall>r \<in> set rs. dict_to_list fieldnames (f r) = Inr r
     \<Longrightarrow> writerows fieldnames (map f rs) out = (None, out @ rs)"
  by (induction rs arbitrary: out) auto

lemma length_filter_less_iff: "length (filter P xs) < length xs \<longleftrightarrow> (\<exists>x \<in> set xs. \<not> P x)"
  by (induction xs) (auto simp: less_Suc_eq_le)

section \<open>The assignment lookup\<close>

lemma find_assignment_no_column:
  assumes "\<forall>row \<in> set rows. map_of row (Some ''patient_username'') = None"
  shows "(case find_assignment p rows of Inl e \<Rightarrow> NoneVal | Inr v \<Rightarrow> v) = NoneVal"
    and "find (\<lambda>row. map_of row (Some ''patient_username'') = Some (Str p)) rows = None"
  using assms by (cases rows; simp add: field_eq_def dict_get_def find_None_iff)+

lemma find_assignment_column:
  assumes "\<forall>row \<in> set rows. map_of row (Some ''patient_username'') \<noteq> None"
  shows "(case find_assignment p rows of Inl e \<Rightarrow> NoneVal | Inr v \<Rightarrow> v)
         = (case find (\<lambda>row. map_of row (Some ''patient_username'') = Some (Str p)) rows of
              None \<Rightarrow> NoneVal
            | Some row \<Rightarrow> (case map_of row (Some ''mhwp_username'') of
                            None \<Rightarrow> NoneVal | Some v \<Rightarrow> v))"
  using assms
  by (induction rows) (auto simp: field_eq_def dict_get_def split: option.splits)

text \<open>
  Claim C8.  For every patient name and every state of the assignments file,
  \<^verbatim>\<open>get_assigned_mhwp\<close> returns the \<^verbatim>\<open>mhwp_username\<close> of the first row, in file
  order, whose \<^verbatim>\<open>patient_username\<close> is the argument, and \<^verbatim>\<open>None\<close> when no row
  matches or the file is absent (also when the matching row has no such field); the
  file system it leaves is the one it found.
\<close>

theorem get_assigned_mhwp_first_match:
  "get_assigned_mhwp patient_username assignments_file fs =
     ((case fs assignments_file of
         None \<Rightarrow> NoneVal
       | Some content \<Rightarrow>
           (case find (\<lambda>row. map_of row (Some ''patient_username'') = Some (Str patient_username))
                      (DictReader content) of
              None \<Rightarrow> NoneVal
            | Some row \<Rightarrow> (case map_of row (Some ''mhwp_username'') of
                            None \<Rightarrow> NoneVal | Some v \<Rightarrow> v))), fs)"
proof (cases "fs assignments_file")
  case None
  then show ?thesis by (simp add: get_assigned_mhwp_def)
next
  case (Some content)
  have uniform: "(\<forall>row \<in> set (DictReader content). map_of row (Some ''patient_username'') = None)
      \<or> (\<forall>row \<in> set (DictReader content). map_of row (Some ''patient_username'') \<noteq> None)"
  proof (cases content)
    case Nil
    then show ?thesis by (simp add: DictReader_def)
  next
    case (Cons fieldnames rows)
    then show ?thesis
      by (cases "''patient_username'' \<in> set fieldnames")
        (simp_all add: DictReader_def reader_row_has_key reader_row_key_present)
  qed
  have "get_assigned_mhwp patient_username assignments_file fs
      = (case find_assignment patient_username (DictReader content) of
           Inl e \<Rightarrow> NoneVal | Inr v \<Rightarrow> v, fs)"
    using Some by (simp add: get_assigned_mhwp_def split: sum.splits)
  with uniform Some show ?thesis
    using find_assignment_no_column [of "DictReader content" patient_username]
      find_assignment_column [of "DictReader content" patient_username]
    by auto
qed

text \<open>
  The theorem at a file with two rows for the patient: the earlier row wins and the
  file system is returned as it was.
\<close>

theorem get_assigned_mhwp_first_match_witness:
  "get_assigned_mhwp ''alice'' ''data/assignments.csv'' assignments_fs
     = (Str ''drsmith'', assignments_fs)"
  using get_assigned_mhwp_first_match [of "''alice''" "''data/assignments.csv''" assignments_fs]
  by (simp add: assignments_fs_def DictReader_def reader_row_def)

section \<open>Loading a schedule without the booked slots\<close>

lemma booked_slots_complete:
  "booked_slots m rows = Inr booked \<Longrightarrow> a \<in> set rows
     \<Longrightarrow> dict_get a (Some ''mhwp_username'') = Inr (Str m)
     \<Longrightarrow> \<exists>q. date_slot a = Inr q \<and> q \<in> set booked"
  by (induction rows arbitrary: booked)
    (auto simp: field_eq_def split: sum.splits bool.splits)

text \<open>
  Claim C4.  For every practitioner and every state of the schedule file and of the
  ledger: when \<^verbatim>\<open>load_mhwp_schedule\<close> returns rows, no returned row has the date and
  slot of a ledger record of that practitioner.
\<close>

theorem load_available_excludes_booked:
  assumes "load_mhwp_schedule mhwp_username schedule_file fs = (Inr rows, fs')"
    and "r \<in> set rows"
    and "fs appointments_path = Some ledger"
    and "a \<in> set (DictReader ledger)"
    and "dict_get a (Some ''mhwp_username'') = Inr (Str mhwp_username)"
  shows "\<exists>p q. date_slot r = Inr p \<and> date_slot a = Inr q \<and> p \<noteq> q"
proof (cases "fs schedule_file")
  case None
  with assms(1,2) show ?thesis by (simp add: load_mhwp_schedule_def)
next
  case (Some schedule)
  with assms(1,3) obtain booked where
    booked: "booked_slots mhwp_username (DictReader ledger) = Inr booked"
    and rows: "filter_exc (\<lambda>row. case date_slot row of Inl e \<Rightarrow> Inl e
                                  | Inr p \<Rightarrow> Inr (p \<notin> set booked)) (DictReader schedule) = Inr rows"
    by (auto simp: load_mhwp_schedule_def split: sum.splits)
  from booked_slots_complete [OF booked assms(4,5)] obtain q where
    q: "date_slot a = Inr q" "q \<in> set booked" by blast
  from filter_exc_holds [OF rows assms(2)] obtain p where
    p: "date_slot r = Inr p" "p \<notin> set booked" by (auto split: sum.splits)
  from p q show ?thesis by auto
qed

text \<open>
  The theorem at a schedule of two slots with the first in the ledger: the second is
  the only row returned, and it differs from the ledger record.
\<close>

theorem load_available_excludes_booked_witness:
  "load_mhwp_schedule ''drsmith'' schedule_path example_fs
     = (Inr [reader_row (hd example_long_schedule) [''drsmith'', ''2024/03/01'', ''10:00'']],
        example_fs)
   \<and> (\<exists>p q. date_slot (reader_row (hd example_long_schedule)
                        [''drsmith'', ''2024/03/01'', ''10:00'']) = Inr p
          \<and> date_slot (reader_row ledger_header
                        [''alice'', ''drsmith'', ''2024/03/01'', ''09:00'']) = Inr q
          \<and> p \<noteq> q)"
proof -
  have run: "load_mhwp_schedule ''drsmith'' schedule_path example_fs
     = (Inr [reader_row (hd example_long_schedule) [''drsmith'', ''2024/03/01'', ''10:00'']],
        example_fs)"
    by (simp add: load_mhwp_schedule_def example_fs_def example_long_schedule_def
        example_ledger_def ledger_header_def schedule_path_def appointments_path_def
        DictReader_def reader_row_def field_eq_def dict_get_def date_slot_def)
  have ledger: "example_fs appointments_path = Some example_ledger"
    by (simp add: example_fs_def)
  have appt: "reader_row ledger_header [''alice'', ''drsmith'', ''2024/03/01'', ''09:00'']
      \<in> set (DictReader example_ledger)"
    by (simp add: example_ledger_def DictReader_def)
  have mhwp: "dict_get (reader_row ledger_header
        [''alice'', ''drsmith'', ''2024/03/01'', ''09:00'']) (Some ''mhwp_username'')
      = Inr (Str ''drsmith'')"
    by (simp add: ledger_header_def reader_row_def dict_get_def)
  show ?thesis
    using run load_available_excludes_booked [OF run _ ledger appt mhwp] by simp
qed

section \<open>The open slots of a row\<close>

lemmas text_defs =
  str_strip_def isspace_def space_codepoints_def is_cont_def cont_bits_def
  isdigit_def isdigit_char_def in_ranges_def decimal_ranges_def other_digit_ranges_def
  decimal_value_def py_int_def

text \<open>
  Claim C2.  The claim wants every slot column of a schedule row scanned and no open
  slot column left out, the index being the place of the column among the slot
  columns.  The row of the specification has the columns \<^verbatim>\<open>mhwp_username\<close>,
  \<^verbatim>\<open>Date\<close>, 09:00, 10:00, 11:00 with 09:00 and 10:00 open: the open 09:00 is left
  out and 10:00 comes back under the index 0, since line 63 takes the keys from the
  fourth on where its comment says from the third column onward.
\<close>

theorem first_slot_column_omitted:
  "map fst spec_row
     = [Some ''mhwp_username'', Some ''Date'', Some ''09:00'', Some ''10:00'', Some ''11:00'']
   \<and> map_of spec_row (Some ''09:00'') = Some (Str OPEN)
   \<and> map_of spec_row (Some ''10:00'') = Some (Str OPEN)
   \<and> extract_available_slots [spec_row] = Inr [(0, Some ''10:00'')]"
  by (simp add: spec_row_def spec_header_def reader_row_def extract_available_slots_def
      slot_columns_def dict_get_def val_strip_def text_defs OPEN_def BOOKED_def
      enumerate_eq_zip upt_rec)

section \<open>Booking\<close>

lemmas run_defs =
  patient_select_slots_def DictReader_def reader_row_def field_eq_def dict_get_def
  extract_available_slots_def slot_columns_def val_strip_def text_defs
  parse_indices_def selection_ok_def dict_to_list_def key_text_def
  OPEN_def BOOKED_def schedule_path_def appointments_path_def
  example_header_def spec_header_def ledger_header_def enumerate_eq_zip upt_rec Let_def

text \<open>
  A rejected line only makes the loop prompt again: the operation goes on as if the
  line had not been typed, so nothing is written for it.  More than two indices are
  rejected whatever the open slots are, and so is an index that is not open.
\<close>

lemma too_many_indices_rejected: "2 < length sel \<Longrightarrow> \<not> selection_ok available_slots sel"
  by (simp add: selection_ok_def)

lemma closed_index_rejected:
  "idx \<in> set sel \<Longrightarrow> idx \<notin> set (map fst available_slots)
     \<Longrightarrow> \<not> selection_ok available_slots sel"
  by (auto simp: selection_ok_def list_all_iff)

lemma rejected_line_prompts_again:
  "parse_indices line = Inr sel \<Longrightarrow> \<not> selection_ok available_slots sel
     \<Longrightarrow> selection_loop available_slots (line # lines) = selection_loop available_slots lines"
  by simp

lemma accepted_line_leaves_loop:
  "parse_indices line = Inr sel \<Longrightarrow> selection_ok available_slots sel
     \<Longrightarrow> selection_loop available_slots (line # lines) = Inr (sel, lines)"
  by simp

lemma too_many_indices_no_effect:
  assumes "parse_indices line = Inr sel" and "2 < length sel"
  shows "(case patient_select_slots p m schedule_file appointments_file (date # line # lines) fs
            of (out, unread, fs') \<Rightarrow> (out, fs'))
       = (case patient_select_slots p m schedule_file appointments_file (date # lines) fs
            of (out, unread, fs') \<Rightarrow> (out, fs'))"
proof -
  have loop: "selection_loop available_slots (line # lines) = selection_loop available_slots lines"
    for available_slots
    using assms by (simp add: too_many_indices_rejected)
  show ?thesis
    by (simp add: patient_select_slots_def loop Let_def del: selection_loop.simps
        split: option.splits sum.splits prod.splits)
qed

text \<open>
  Claim C7.  The claim wants the scenario to end with 09:00 and 10:00 booked, two
  records appended and no open slot left.  On the schedule file of the specification
  the only slot offered is 10:00, under the index 0; the line 0,1 is parsed to the
  indices 0 and 1 and rejected, the loop prompts again, and with no further line the
  operation ends in the error of the prompt: nothing is booked and neither file is
  written.  It is the defect of claim C2, the first slot column being skipped.
\<close>

theorem scenario_books_nothing:
  "extract_available_slots (DictReader (the (spec_fs schedule_path)))
     = Inr [(0, Some ''10:00'')]
   \<and> parse_indices ''0,1'' = Inr [0, 1]
   \<and> selection_loop [(0, Some ''10:00'')] [''0,1''] = Inl EOFError
   \<and> patient_select_slots ''alice'' ''drsmith'' schedule_path appointments_path
       [''2024/03/01'', ''0,1''] spec_fs
     = (Error EOFError, [], spec_fs)"
  by (simp add: run_defs spec_fs_def)

text \<open>
  Claim C1.  The claim wants every accepted index booked in the saved schedule and one
  ledger record for each chosen slot.  With the 09:00 slot booked already the open
  slots are the indices 1 (10:00) and 2 (11:00); the index 1 is accepted and the
  booking reported as successful, yet the 10:00 cell is still open in the saved file,
  the 11:00 cell is booked, and the one record appended is for 11:00: line 244 reads
  the list of open slots at the position 1, not the slot of index 1.
\<close>

theorem accepted_index_books_other_slot:
  "extract_available_slots (DictReader (the (gap_fs schedule_path)))
     = Inr [(1, Some ''10:00''), (2, Some ''11:00'')]
   \<and> patient_select_slots ''alice'' ''drsmith'' schedule_path appointments_path
       [''2024/03/01'', ''1''] gap_fs
     = (BookedSuccessfully, [],
        gap_fs(schedule_path \<mapsto> [example_header,
                 [''drsmith'', ''2024/03/01'', ''Fri'', BOOKED, OPEN, BOOKED]],
               appointments_path \<mapsto> [ledger_header,
                 [''alice'', ''drsmith'', ''2024/03/01'', ''11:00'']]))"
  by (simp add: run_defs gap_fs_def)

text \<open>
  Claim C3.  The claim wants a choice of one or two open indices to succeed.  In the
  same state the index 2 is open and is accepted by the loop, yet the operation ends
  in the \<^verbatim>\<open>IndexError\<close> of line 244, reports an error and writes neither file.
\<close>

theorem open_index_raises:
  "extract_available_slots (DictReader (the (gap_fs schedule_path)))
     = Inr [(1, Some ''10:00''), (2, Some ''11:00'')]
   \<and> selection_loop [(1, Some ''10:00''), (2, Some ''11:00'')] [''2''] = Inr ([2], [])
   \<and> patient_select_slots ''alice'' ''drsmith'' schedule_path appointments_path
       [''2024/03/01'', ''2''] gap_fs
     = (Error IndexError, [], gap_fs)"
  by (simp add: run_defs gap_fs_def)

text \<open>
  Claim C10.  The claim wants a line without any digit token to end in a successful
  booking of no slot that saves the schedule file with its content unchanged.  The
  line is accepted, nothing is appended and success is reported, but the file is saved
  from the rows of the chosen practitioner only: the row of drjones is gone from it.
\<close>

theorem empty_selection_drops_other_rows:
  "patient_select_slots ''alice'' ''drsmith'' schedule_path appointments_path
       [''2024/03/01'', ''abc,xy''] shared_fs
     = (BookedSuccessfully, [],
        shared_fs(schedule_path \<mapsto> [example_header,
                 [''drsmith'', ''2024/03/01'', ''Fri'', OPEN, OPEN, BOOKED]]))"
  by (simp add: run_defs shared_fs_def fun_upd_twist)

section \<open>Cancelling\<close>

lemmas cancel_defs =
  handle_patient_menu_cancel_def appt_matches_def appointment_fieldnames_def
  DictReader_def reader_row_def field_eq_def dict_get_def text_defs
  dict_to_list_def key_text_def appointments_path_def ledger_header_def Let_def

lemma four_fields:
  assumes "length r = 4"
  obtains a b c d where "r = [a, b, c, d]"
proof -
  from assms obtain a r1 where r: "r = a # r1" and "length r1 = 3" by (cases r) auto
  then obtain b r2 where r1: "r1 = b # r2" and "length r2 = 2" by (cases r1) auto
  then obtain c r3 where r2: "r2 = c # r3" and "length r3 = 1" by (cases r2) auto
  then obtain d where "r3 = [d]" by (cases r3) auto
  with r r1 r2 that show thesis by blast
qed

lemma ledger_row_matches:
  assumes "length r = 4"
  shows "appt_matches u d t (reader_row ledger_header r) = Inr (record_matches u d t r)"
proof -
  from assms obtain a b c e where "r = [a, b, c, e]" by (rule four_fields)
  then show ?thesis
    by (simp add: appt_matches_def reader_row_def ledger_header_def field_eq_def dict_get_def
        record_matches_def split: bool.splits)
qed

lemma ledger_row_written:
  assumes "length r = 4"
  shows "dict_to_list appointment_fieldnames (reader_row ledger_header r) = Inr r"
proof -
  from assms obtain a b c e where "r = [a, b, c, e]" by (rule four_fields)
  then show ?thesis
    by (simp add: dict_to_list_def appointment_fieldnames_def reader_row_def ledger_header_def)
qed

text \<open>
  Claim C5, as stated, fails: the ledger holds the appointment of alice twice, the
  cancellation reports success and both records are gone, not exactly one.
\<close>

theorem cancel_removes_both_records:
  "handle_patient_menu_cancel ''alice'' [''2024/03/01'', ''09:00''] double_fs
     = (Cancelled, [], double_fs(appointments_path \<mapsto> [ledger_header]))
   \<and> length (the (double_fs appointments_path)) = length [ledger_header] + 2"
  by (simp add: cancel_defs double_fs_def)

text \<open>
  Claim C5, amended.  For every ledger under its header whose records have four
  fields: cancelling a patient, date and slot that some record holds removes every
  record that holds them, keeps the other records in their order and reports success;
  cancelling one that no record holds reports that none was found and leaves the
  file system as it was.
\<close>

theorem cancel_removes_every_match:
  assumes "fs appointments_path = Some (ledger_header # records)"
    and "\<forall>r \<in> set records. length r = 4"
  shows "handle_patient_menu_cancel username (line1 # line2 # inp) fs =
    (if \<exists>r \<in> set records. record_matches username (str_strip line1) (str_strip line2) r
     then (Cancelled, inp,
           fs(appointments_path \<mapsto> ledger_header #
                filter (\<lambda>r. \<not> record_matches username (str_strip line1) (str_strip line2) r)
                  records))
     else (NoMatchingAppointment, inp, fs))"
proof -
  let ?m = "record_matches username (str_strip line1) (str_strip line2)"
  have nonempty: "filter (\<lambda>r. r \<noteq> []) records = records"
    using assms(2) by (auto simp: filter_id_conv)
  have rows: "DictReader (ledger_header # records) = map (reader_row ledger_header) records"
    by (simp add: DictReader_def nonempty)
  have kept: "filter_exc (\<lambda>appt. case appt_matches username (str_strip line1) (str_strip line2) appt of
                                   Inl e \<Rightarrow> Inl e | Inr b \<Rightarrow> Inr (\<not> b))
                (map (reader_row ledger_header) records)
              = Inr (map (reader_row ledger_header) (filter (\<lambda>r. \<not> ?m r) records))"
    using assms(2)
    by (induction records) (simp_all add: ledger_row_matches)
  have written: "writerows appointment_fieldnames
                   (map (reader_row ledger_header) (filter (\<lambda>r. \<not> ?m r) records))
                   [map key_text appointment_fieldnames]
                 = (None, ledger_header # filter (\<lambda>r. \<not> ?m r) records)"
  proof -
    have "\<forall>d \<in> set (filter (\<lambda>r. \<not> ?m r) records). length d = 4"
      using assms(2) by simp
    then have "writerows appointment_fieldnames
        (map (reader_row ledger_header) (filter (\<lambda>r. \<not> ?m r) records)) out
        = (None, out @ filter (\<lambda>r. \<not> ?m r) records)" for out
      by (intro writerows_all) (simp add: ledger_row_written)
    then show ?thesis
      by (simp add: appointment_fieldnames_def key_text_def ledger_header_def)
  qed
  show ?thesis
    using assms(1)
    by (simp add: handle_patient_menu_cancel_def rows kept written length_filter_less_iff)
qed

text \<open>
  The amended claim at a ledger with the appointment of alice twice and one of bob
  between: both records of alice go, the record of bob stays.
\<close>

theorem cancel_removes_every_match_witness:
  "handle_patient_menu_cancel ''alice'' [''2024/03/01'', '' 09:00 ''] crowded_fs
     = (Cancelled, [],
        crowded_fs(appointments_path \<mapsto>
          [ledger_header, [''bob'', ''drsmith'', ''2024/03/01'', ''09:00'']]))"
  using cancel_removes_every_match [of crowded_fs
      "[[''alice'', ''drsmith'', ''2024/03/01'', ''09:00''],
        [''bob'', ''drsmith'', ''2024/03/01'', ''09:00''],
        [''alice'', ''drsmith'', ''2024/03/01'', ''09:00'']]"
      "''alice''" "''2024/03/01''" "'' 09:00 ''" "[]"]
  by (simp add: crowded_fs_def record_matches_def text_defs)

end
